theory Spec2Isabelle
  imports Main "HOL-Library.Word"
begin

section \<open>Scalar types of RawRouteData.h\<close>

text \<open>
  The header uses the C++ types \<open>unsigned\<close> and \<open>int\<close>; both are 32 bits wide on the
  platforms the routing engine is built for.  A value of type \<open>int\<close> is a 32-bit word
  read in two's complement (\<open>sint\<close>), a value of type \<open>unsigned\<close> a 32-bit word read
  with \<open>unat\<close>.
\<close>

type_synonym u32 = "32 word"
type_synonym s32 = "32 word"

text \<open>
  Modelled from the spec: \<open>NodeID\<close> is declared in \<open>typedefs.h\<close>, which is not part of
  the sources at hand.  The data model places \<open>node\<close> in the "unsigned integer
  domain" with the maximum value as sentinel, and the default constructor
  initialises it with \<open>std::numeric_limits<unsigned>::max()\<close>; \<open>NodeID\<close> is therefore
  \<open>unsigned\<close>.
\<close>

type_synonym NodeID = u32

text \<open>\<open>std::numeric_limits<unsigned>::max()\<close> and \<open>std::numeric_limits<int>::max()\<close>.\<close>

definition numeric_limits_unsigned_max :: u32 where
  "numeric_limits_unsigned_max = 4294967295"

definition numeric_limits_int_max :: s32 where
  "numeric_limits_int_max = 2147483647"

text \<open>
  Modelled from the spec: \<open>TurnInstruction\<close> is declared in \<open>TurnInstructions.h\<close>, which
  is not part of the sources at hand.  The data model calls it an enumerated
  maneuver code with an "underlying representation" that has a maximum value; it
  is an unsigned integer type whose bit width the header does not fix, so the
  width is the type parameter \<open>'t\<close> and a \<open>TurnInstruction\<close> is a \<open>'t word\<close>.
  \<open>std::numeric_limits<TurnInstruction>::max()\<close> is the word with every bit set.
\<close>

definition numeric_limits_TurnInstruction_max :: "'t::len word" where
  "numeric_limits_TurnInstruction_max = - 1"


section \<open>PathData\<close>

text \<open>
  \<^verbatim>\<open>
  struct PathData {
      NodeID node;
      unsigned name_id;
      unsigned segment_duration;
      TurnInstruction turn_instruction;
  };
  \<close>
  The spec calls this type PathSegment.
\<close>

record (overloaded) ('t::len) PathData =
  node :: NodeID
  name_id :: u32
  segment_duration :: u32
  turn_instruction :: "'t word"

text \<open>
  A C++ constructor runs on storage whose previous contents are indeterminate.
  The argument \<open>raw\<close> of the two constructors is that storage; the member
  initialisers overwrite it member by member, in declaration order.  A member
  without an initialiser would keep what \<open>raw\<close> holds.

  \<^verbatim>\<open>
  PathData()
      : node(std::numeric_limits<unsigned>::max()),
        name_id(std::numeric_limits<unsigned>::max()),
        segment_duration(std::numeric_limits<unsigned>::max()),
        turn_instruction(std::numeric_limits<TurnInstruction>::max()) {}
  \<close>
\<close>

definition PathData_default :: "'t::len PathData \<Rightarrow> 't PathData" where
  "PathData_default raw =
     raw\<lparr>node := numeric_limits_unsigned_max,
         name_id := numeric_limits_unsigned_max,
         segment_duration := numeric_limits_unsigned_max,
         turn_instruction := numeric_limits_TurnInstruction_max\<rparr>"

text \<open>
  \<^verbatim>\<open>
  PathData(NodeID no, unsigned na, unsigned tu, unsigned dur)
      : node(no), name_id(na), segment_duration(dur), turn_instruction(tu) {}
  \<close>
  The initialiser \<open>turn_instruction(tu)\<close> converts an \<open>unsigned\<close> to
  \<open>TurnInstruction\<close>; the conversion between unsigned integer types is \<open>ucast\<close>.
\<close>

definition PathData_init ::
  "'t::len PathData \<Rightarrow> NodeID \<Rightarrow> u32 \<Rightarrow> u32 \<Rightarrow> u32 \<Rightarrow> 't PathData" where
  "PathData_init raw no na tu dur =
     raw\<lparr>node := no,
         name_id := na,
         segment_duration := dur,
         turn_instruction := ucast tu\<rparr>"


section \<open>RawRouteData\<close>

text \<open>
  \<^verbatim>\<open>
  struct RawRouteData {
      std::vector<std::vector<PathData>> unpacked_path_segments;
      std::vector<PathData> unpacked_alternative;
      std::vector<PhantomNodes> segment_end_coordinates;
      std::vector<FixedPointCoordinate> raw_via_node_coordinates;
      unsigned check_sum;
      int shortest_path_length;
      int alternative_path_length;
      bool source_traversed_in_reverse;
      bool target_traversed_in_reverse;
      bool alt_source_traversed_in_reverse;
      bool alt_target_traversed_in_reverse;
  };
  \<close>
  The spec calls this type RouteResult and its members \<open>primary_path\<close>,
  \<open>alternative_path\<close>, \<open>leg_endpoints\<close>, \<open>via_coordinates\<close>, \<open>checksum\<close>,
  \<open>primary_path_length\<close>, \<open>alternative_path_length\<close>, \<open>source_reversed\<close>,
  \<open>target_reversed\<close>, \<open>alt_source_reversed\<close> and \<open>alt_target_reversed\<close>.
  \<open>PhantomNodes\<close> and \<open>FixedPointCoordinate\<close> are declared in headers that are not
  part of the sources at hand; the record only stores them, so they are the type
  parameters \<open>'p\<close> and \<open>'c\<close>.
\<close>

record (overloaded) ('t::len, 'p, 'c) RawRouteData =
  unpacked_path_segments :: "'t PathData list list"
  unpacked_alternative :: "'t PathData list"
  segment_end_coordinates :: "'p list"
  raw_via_node_coordinates :: "'c list"
  check_sum :: u32
  shortest_path_length :: s32
  alternative_path_length :: s32
  source_traversed_in_reverse :: bool
  target_traversed_in_reverse :: bool
  alt_source_traversed_in_reverse :: bool
  alt_target_traversed_in_reverse :: bool

text \<open>
  \<^verbatim>\<open>
  RawRouteData()
      : check_sum(std::numeric_limits<unsigned>::max()),
        shortest_path_length(std::numeric_limits<int>::max()),
        alternative_path_length(std::numeric_limits<int>::max()),
        source_traversed_in_reverse(false), target_traversed_in_reverse(false),
        alt_source_traversed_in_reverse(false), alt_target_traversed_in_reverse(false) {}
  \<close>
  The four vectors have no initialiser in the list; a member of class type is
  then default-constructed, and a default-constructed \<open>std::vector\<close> is empty.
\<close>

definition RawRouteData_default ::
  "('t::len, 'p, 'c) RawRouteData \<Rightarrow> ('t, 'p, 'c) RawRouteData" where
  "RawRouteData_default raw =
     raw\<lparr>unpacked_path_segments := [],
         unpacked_alternative := [],
         segment_end_coordinates := [],
         raw_via_node_coordinates := [],
         check_sum := numeric_limits_unsigned_max,
         shortest_path_length := numeric_limits_int_max,
         alternative_path_length := numeric_limits_int_max,
         source_traversed_in_reverse := False,
         target_traversed_in_reverse := False,
         alt_source_traversed_in_reverse := False,
         alt_target_traversed_in_reverse := False\<rparr>"


text \<open>
  The two groups of members that belong to the primary route and to the
  alternative route.  \<open>check_sum\<close> belongs to neither.
\<close>

definition primary_fields ::
  "('t::len, 'p, 'c) RawRouteData \<Rightarrow>
     't PathData list list \<times> s32 \<times> 'p list \<times> 'c list \<times> bool \<times> bool" where
  "primary_fields r =
     (unpacked_path_segments r, shortest_path_length r, segment_end_coordinates r,
      raw_via_node_coordinates r, source_traversed_in_reverse r, target_traversed_in_reverse r)"

definition alternative_fields ::
  "('t::len, 'p, 'c) RawRouteData \<Rightarrow> 't PathData list \<times> s32 \<times> bool \<times> bool" where
  "alternative_fields r =
     (unpacked_alternative r, alternative_path_length r,
      alt_source_traversed_in_reverse r, alt_target_traversed_in_reverse r)"


section \<open>The producer\<close>

text \<open>
  Modelled from the spec: the search stage that fills a \<open>RawRouteData\<close> is not part
  of the sources at hand.  The spec describes it as a caller that populates the
  members directly after construction and that is responsible for the pairing
  "\<open>primary_path_length == max\<close> if and only if \<open>primary_path\<close> has no segments
  across all legs; same pairing rule for the alternative".  A producer write is
  one of: record the outcome of the primary search (the legs with their total
  length), record the outcome of the alternative search, or assign one of the
  remaining members.  The type of the segments is a parameter here; it is
  \<open>'t PathData\<close> wherever a write is applied.
\<close>

datatype ('seg, 'p, 'c) producer_write =
    Primary_route "'seg list list" s32
  | Alternative_route "'seg list" s32
  | Leg_endpoints "'p list"
  | Via_coordinates "'c list"
  | Checksum u32
  | Source_reversed bool
  | Target_reversed bool
  | Alt_source_reversed bool
  | Alt_target_reversed bool

text \<open>Each write is a sequence of plain member assignments \<open>r.member = value\<close>.\<close>

fun apply_write ::
  "('t::len PathData, 'p, 'c) producer_write \<Rightarrow> ('t, 'p, 'c) RawRouteData
     \<Rightarrow> ('t, 'p, 'c) RawRouteData" where
  "apply_write (Primary_route legs len) r =
     r\<lparr>unpacked_path_segments := legs, shortest_path_length := len\<rparr>"
| "apply_write (Alternative_route segs len) r =
     r\<lparr>unpacked_alternative := segs, alternative_path_length := len\<rparr>"
| "apply_write (Leg_endpoints ends) r = r\<lparr>segment_end_coordinates := ends\<rparr>"
| "apply_write (Via_coordinates vias) r = r\<lparr>raw_via_node_coordinates := vias\<rparr>"
| "apply_write (Checksum c) r = r\<lparr>check_sum := c\<rparr>"
| "apply_write (Source_reversed b) r = r\<lparr>source_traversed_in_reverse := b\<rparr>"
| "apply_write (Target_reversed b) r = r\<lparr>target_traversed_in_reverse := b\<rparr>"
| "apply_write (Alt_source_reversed b) r = r\<lparr>alt_source_traversed_in_reverse := b\<rparr>"
| "apply_write (Alt_target_reversed b) r = r\<lparr>alt_target_traversed_in_reverse := b\<rparr>"

text \<open>
  The documented contract of the producer: a recorded route carries the length
  sentinel exactly when it has no segment.
\<close>

fun respects_contract :: "('seg, 'p, 'c) producer_write \<Rightarrow> bool" where
  "respects_contract (Primary_route legs len) =
     ((len = numeric_limits_int_max) = (concat legs = []))"
| "respects_contract (Alternative_route segs len) =
     ((len = numeric_limits_int_max) = (segs = []))"
| "respects_contract (Leg_endpoints ends) = True"
| "respects_contract (Via_coordinates vias) = True"
| "respects_contract (Checksum c) = True"
| "respects_contract (Source_reversed b) = True"
| "respects_contract (Target_reversed b) = True"
| "respects_contract (Alt_source_reversed b) = True"
| "respects_contract (Alt_target_reversed b) = True"

fun populate ::
  "('t::len, 'p, 'c) RawRouteData \<Rightarrow> ('t PathData, 'p, 'c) producer_write list
     \<Rightarrow> ('t, 'p, 'c) RawRouteData" where
  "populate r [] = r"
| "populate r (w # ws) = populate (apply_write w r) ws"

definition length_sentinel_pairing :: "('t::len, 'p, 'c) RawRouteData \<Rightarrow> bool" where
  "length_sentinel_pairing r =
     (((shortest_path_length r = numeric_limits_int_max)
         = (concat (unpacked_path_segments r) = []))
    \<and> ((alternative_path_length r = numeric_limits_int_max)
         = (unpacked_alternative r = [])))"


section \<open>Facts about the limits\<close>

lemma unat_unsigned_max: "unat numeric_limits_unsigned_max = 2 ^ 32 - 1"
  by (simp add: numeric_limits_unsigned_max_def)

lemma unsigned_max_greatest: "(x :: u32) \<le> numeric_limits_unsigned_max"
proof -
  have max_all_ones: "numeric_limits_unsigned_max = (- 1 :: u32)"
    by (simp add: numeric_limits_unsigned_max_def)
  show ?thesis unfolding max_all_ones by (rule word_n1_ge)
qed

lemma int_max_greatest: "sint (x :: s32) \<le> sint numeric_limits_int_max"
  using sint_lt [of x] by (simp add: numeric_limits_int_max_def)

lemma unat_TurnInstruction_max:
  "unat (numeric_limits_TurnInstruction_max :: 't::len word) = 2 ^ LENGTH('t) - 1"
  by (simp add: numeric_limits_TurnInstruction_max_def unat_minus_one unsigned_minus_1_eq_mask mask_eq_exp_minus_1)

lemma TurnInstruction_max_greatest:
  "(x :: 't::len word) \<le> numeric_limits_TurnInstruction_max"
  by (simp add: numeric_limits_TurnInstruction_max_def)

lemma unat_ucast_mod:
  "unat (ucast (tu :: u32) :: 't::len word) = unat tu mod 2 ^ LENGTH('t)"
  by (simp add: unsigned_ucast_eq unsigned_take_bit_eq take_bit_eq_mod)

lemma two_power_pred_eq_iff: "((2::nat) ^ n - 1 = 2 ^ 32 - 1) = (n = 32)"
proof
  assume h: "(2::nat) ^ n - 1 = 2 ^ 32 - 1"
  have "(1::nat) \<le> 2 ^ n" by simp
  with h have "(2::nat) ^ n = 2 ^ 32" by simp
  then show "n = 32" using power_inject_exp [of "2::nat" n 32] by simp
next
  assume "n = 32"
  then show "(2::nat) ^ n - 1 = 2 ^ 32 - 1" by simp
qed


lemma mod_two_power_eq_self_iff: "((m::nat) mod 2 ^ k = m) = (m < 2 ^ k)"
proof
  assume "m mod 2 ^ k = m"
  moreover have "m mod 2 ^ k < 2 ^ k" by simp
  ultimately show "m < 2 ^ k" by simp
next
  assume "m < 2 ^ k"
  then show "m mod 2 ^ k = m" by simp
qed


section \<open>The pairing of length sentinel and segments under producer writes\<close>

lemma pairing_default: "length_sentinel_pairing (RawRouteData_default raw)"
  by (simp add: length_sentinel_pairing_def RawRouteData_default_def)

lemma pairing_apply_write:
  "length_sentinel_pairing r \<Longrightarrow> respects_contract w
     \<Longrightarrow> length_sentinel_pairing (apply_write w r)"
  by (cases w) (simp_all add: length_sentinel_pairing_def)

lemma pairing_populate:
  "length_sentinel_pairing r \<Longrightarrow> list_all respects_contract ws
     \<Longrightarrow> length_sentinel_pairing (populate r ws)"
proof (induction ws arbitrary: r)
  case Nil
  then show ?case by simp
next
  case (Cons w ws)
  from Cons.prems have "length_sentinel_pairing (apply_write w r)"
    by (simp add: pairing_apply_write)
  moreover from Cons.prems have "list_all respects_contract ws" by simp
  ultimately show ?case by (simp add: Cons.IH)
qed


section \<open>PathData: the populating constructor\<close>

text \<open>
  C1, as the code has it.  For every \<open>PathData\<close> built by the four-argument
  constructor, \<open>node\<close>, \<open>name_id\<close> and \<open>segment_duration\<close> equal exactly the
  arguments \<open>no\<close>, \<open>na\<close> and \<open>dur\<close>, and no argument lands in another argument's
  member.  \<open>turn_instruction\<close> holds \<open>tu\<close> converted to \<open>TurnInstruction\<close>, that is
  \<open>tu\<close> modulo \<open>2 ^ w\<close> for the bit width \<open>w\<close> of \<open>TurnInstruction\<close>; it equals the
  argument exactly if and only if the argument is below \<open>2 ^ w\<close>.
\<close>

theorem PathData_init_fields:
  fixes raw :: "'t::len PathData"
  shows "node (PathData_init raw no na tu dur) = no
       \<and> name_id (PathData_init raw no na tu dur) = na
       \<and> segment_duration (PathData_init raw no na tu dur) = dur
       \<and> unat (turn_instruction (PathData_init raw no na tu dur)) = unat tu mod 2 ^ LENGTH('t)
       \<and> ((unat (turn_instruction (PathData_init raw no na tu dur)) = unat tu)
            = (unat tu < 2 ^ LENGTH('t)))"
proof -
  have stored:
    "unat (turn_instruction (PathData_init raw no na tu dur)) = unat tu mod 2 ^ LENGTH('t)"
    by (simp add: PathData_init_def unat_ucast_mod)
  have exact: "(unat tu mod 2 ^ LENGTH('t) = unat tu) = (unat tu < 2 ^ LENGTH('t))"
    by (rule mod_two_power_eq_self_iff)
  show ?thesis
    unfolding stored exact by (simp add: PathData_init_def)
qed

text \<open>
  C1 as stated ("every field equals exactly the argument passed for it, no
  coercion") fails where \<open>TurnInstruction\<close> is narrower than \<open>unsigned\<close>: with an
  8-bit \<open>TurnInstruction\<close>, \<open>PathData(0, 0, 256, 0)\<close> stores \<open>turn_instruction = 0\<close>,
  not 256.
\<close>

theorem PathData_init_coercion_counterexample:
  "\<not> (unat (turn_instruction
         (PathData_init
            \<lparr>node = 0, name_id = 0, segment_duration = 0, turn_instruction = 0 :: 8 word\<rparr>
            0 0 256 0))
       = unat (256 :: u32))"
  by (simp add: PathData_init_def)


text \<open>
  C9.  The four-argument constructor takes \<open>tu\<close> as an \<open>unsigned\<close> and stores it in
  the member of type \<open>TurnInstruction\<close>: for every argument value the stored
  \<open>turn_instruction\<close> is \<open>tu\<close> modulo \<open>2 ^ w\<close>, where \<open>w\<close> is the bit width of
  \<open>TurnInstruction\<close>.  The constructor rejects nothing; the stored value is always
  below \<open>2 ^ w\<close>.
\<close>

theorem PathData_init_turn_instruction_mod:
  fixes raw :: "'t::len PathData"
  shows "unat (turn_instruction (PathData_init raw no na tu dur)) = unat tu mod 2 ^ LENGTH('t)
       \<and> unat (turn_instruction (PathData_init raw no na tu dur)) < 2 ^ LENGTH('t)"
  by (simp add: PathData_init_def unat_ucast_mod)



section \<open>PathData: the default constructor\<close>

text \<open>
  C2, as the code has it.  For every default-constructed \<open>PathData\<close>, each of the
  four members holds the maximum value of its own type: \<open>node\<close>, \<open>name_id\<close> and
  \<open>segment_duration\<close> hold \<open>2 ^ 32 - 1\<close> and are equal to each other, and
  \<open>turn_instruction\<close> holds \<open>2 ^ w - 1\<close> for the bit width \<open>w\<close> of
  \<open>TurnInstruction\<close>.  The value of \<open>turn_instruction\<close> equals the value of the other
  three exactly when \<open>w = 32\<close>.
\<close>

theorem PathData_default_fields:
  fixes raw :: "'t::len PathData"
  shows "node (PathData_default raw) = numeric_limits_unsigned_max
       \<and> name_id (PathData_default raw) = numeric_limits_unsigned_max
       \<and> segment_duration (PathData_default raw) = numeric_limits_unsigned_max
       \<and> turn_instruction (PathData_default raw) = numeric_limits_TurnInstruction_max
       \<and> (\<forall>x. x \<le> node (PathData_default raw))
       \<and> (\<forall>x. x \<le> name_id (PathData_default raw))
       \<and> (\<forall>x. x \<le> segment_duration (PathData_default raw))
       \<and> (\<forall>x. x \<le> turn_instruction (PathData_default raw))
       \<and> unat (node (PathData_default raw)) = 2 ^ 32 - 1
       \<and> unat (turn_instruction (PathData_default raw)) = 2 ^ LENGTH('t) - 1
       \<and> ((unat (turn_instruction (PathData_default raw)) = unat (node (PathData_default raw)))
            = (LENGTH('t) = 32))"
proof -
  have n: "unat (node (PathData_default raw)) = 2 ^ 32 - 1"
    by (simp add: PathData_default_def unat_unsigned_max)
  have t: "unat (turn_instruction (PathData_default raw)) = 2 ^ LENGTH('t) - 1"
    by (simp add: PathData_default_def unat_TurnInstruction_max)
  have chain:
    "(unat (turn_instruction (PathData_default raw)) = unat (node (PathData_default raw)))
       = (LENGTH('t) = 32)"
    unfolding n t by (rule two_power_pred_eq_iff)
  have vals: "node (PathData_default raw) = numeric_limits_unsigned_max
       \<and> name_id (PathData_default raw) = numeric_limits_unsigned_max
       \<and> segment_duration (PathData_default raw) = numeric_limits_unsigned_max
       \<and> turn_instruction (PathData_default raw) = numeric_limits_TurnInstruction_max"
    by (simp add: PathData_default_def)
  from vals n t chain show ?thesis
    by (simp add: unsigned_max_greatest TurnInstruction_max_greatest)
qed

text \<open>
  C2 as stated includes the chained equality
  \<open>node == name_id == segment_duration == turn_instruction\<close>.  With an 8-bit
  \<open>TurnInstruction\<close> the default-constructed \<open>turn_instruction\<close> is 255 and \<open>node\<close> is
  4294967295: the two are not equal.
\<close>

theorem PathData_default_chain_counterexample:
  "\<not> (unat (turn_instruction
         (PathData_default
            \<lparr>node = 0, name_id = 0, segment_duration = 0, turn_instruction = 0 :: 8 word\<rparr>))
       = unat (node
         (PathData_default
            \<lparr>node = 0, name_id = 0, segment_duration = 0, turn_instruction = 0 :: 8 word\<rparr>)))"
  by (simp add: PathData_default_def unat_unsigned_max unat_TurnInstruction_max)


section \<open>PathData: construction leaves no member behind\<close>

text \<open>
  C6.  \<open>PathData\<close> has two constructors.  Whatever the storage held before, the
  default constructor yields the instance with all four members at their
  sentinel, and the four-argument constructor yields the instance with all four
  members set from its arguments.  Neither result keeps a member of the previous
  storage, so no partially populated instance comes out of a constructor.
\<close>

theorem PathData_constructed_fully:
  fixes raw :: "'t::len PathData"
  shows "PathData_default raw =
           \<lparr>node = numeric_limits_unsigned_max, name_id = numeric_limits_unsigned_max,
            segment_duration = numeric_limits_unsigned_max,
            turn_instruction = numeric_limits_TurnInstruction_max\<rparr>
       \<and> PathData_init raw no na tu dur =
           \<lparr>node = no, name_id = na, segment_duration = dur, turn_instruction = ucast tu\<rparr>"
  by (simp add: PathData_default_def PathData_init_def)


section \<open>RawRouteData: the default constructor\<close>

text \<open>
  C3.  For every default-constructed \<open>RawRouteData\<close>, \<open>shortest_path_length\<close> and
  \<open>alternative_path_length\<close> equal the maximum of \<open>int\<close>, \<open>check_sum\<close> equals the
  maximum of \<open>unsigned\<close> (no value of the type is greater), the four reversal flags
  are false, and \<open>unpacked_path_segments\<close>, \<open>unpacked_alternative\<close>,
  \<open>segment_end_coordinates\<close> and \<open>raw_via_node_coordinates\<close> are empty.
\<close>

theorem RawRouteData_default_fields:
  fixes raw :: "('t::len, 'p, 'c) RawRouteData"
  shows "shortest_path_length (RawRouteData_default raw) = numeric_limits_int_max
       \<and> alternative_path_length (RawRouteData_default raw) = numeric_limits_int_max
       \<and> check_sum (RawRouteData_default raw) = numeric_limits_unsigned_max
       \<and> (\<forall>x :: s32. sint x \<le> sint (shortest_path_length (RawRouteData_default raw)))
       \<and> (\<forall>x :: s32. sint x \<le> sint (alternative_path_length (RawRouteData_default raw)))
       \<and> (\<forall>x. x \<le> check_sum (RawRouteData_default raw))
       \<and> source_traversed_in_reverse (RawRouteData_default raw) = False
       \<and> target_traversed_in_reverse (RawRouteData_default raw) = False
       \<and> alt_source_traversed_in_reverse (RawRouteData_default raw) = False
       \<and> alt_target_traversed_in_reverse (RawRouteData_default raw) = False
       \<and> unpacked_path_segments (RawRouteData_default raw) = []
       \<and> unpacked_alternative (RawRouteData_default raw) = []
       \<and> segment_end_coordinates (RawRouteData_default raw) = []
       \<and> raw_via_node_coordinates (RawRouteData_default raw) = []"
  by (simp add: RawRouteData_default_def unsigned_max_greatest int_max_greatest)


section \<open>RawRouteData: member assignment\<close>

text \<open>
  C5.  Constructing a \<open>RawRouteData\<close>, assigning every member and reading every
  member back yields exactly the values assigned.  An assignment changes no
  other member: assigning a member and then putting its old value back gives the
  instance one started from.
\<close>

theorem RawRouteData_round_trip:
  fixes raw r :: "('t::len, 'p, 'c) RawRouteData"
  shows "(let w = (RawRouteData_default raw)
              \<lparr>unpacked_path_segments := legs,
               unpacked_alternative := alt,
               segment_end_coordinates := ends,
               raw_via_node_coordinates := vias,
               check_sum := cs,
               shortest_path_length := len,
               alternative_path_length := alen,
               source_traversed_in_reverse := sr,
               target_traversed_in_reverse := tr,
               alt_source_traversed_in_reverse := asr,
               alt_target_traversed_in_reverse := atr\<rparr>
          in unpacked_path_segments w = legs
           \<and> unpacked_alternative w = alt
           \<and> segment_end_coordinates w = ends
           \<and> raw_via_node_coordinates w = vias
           \<and> check_sum w = cs
           \<and> shortest_path_length w = len
           \<and> alternative_path_length w = alen
           \<and> source_traversed_in_reverse w = sr
           \<and> target_traversed_in_reverse w = tr
           \<and> alt_source_traversed_in_reverse w = asr
           \<and> alt_target_traversed_in_reverse w = atr)
       \<and> r\<lparr>unpacked_path_segments := legs,
            unpacked_path_segments := unpacked_path_segments r\<rparr> = r
       \<and> r\<lparr>unpacked_alternative := alt,
            unpacked_alternative := unpacked_alternative r\<rparr> = r
       \<and> r\<lparr>segment_end_coordinates := ends,
            segment_end_coordinates := segment_end_coordinates r\<rparr> = r
       \<and> r\<lparr>raw_via_node_coordinates := vias,
            raw_via_node_coordinates := raw_via_node_coordinates r\<rparr> = r
       \<and> r\<lparr>check_sum := cs, check_sum := check_sum r\<rparr> = r
       \<and> r\<lparr>shortest_path_length := len,
            shortest_path_length := shortest_path_length r\<rparr> = r
       \<and> r\<lparr>alternative_path_length := alen,
            alternative_path_length := alternative_path_length r\<rparr> = r
       \<and> r\<lparr>source_traversed_in_reverse := sr,
            source_traversed_in_reverse := source_traversed_in_reverse r\<rparr> = r
       \<and> r\<lparr>target_traversed_in_reverse := tr,
            target_traversed_in_reverse := target_traversed_in_reverse r\<rparr> = r
       \<and> r\<lparr>alt_source_traversed_in_reverse := asr,
            alt_source_traversed_in_reverse := alt_source_traversed_in_reverse r\<rparr> = r
       \<and> r\<lparr>alt_target_traversed_in_reverse := atr,
            alt_target_traversed_in_reverse := alt_target_traversed_in_reverse r\<rparr> = r"
  by (simp add: Let_def)

text \<open>
  C7.  The members of the primary route and those of the alternative route are
  independent.  Assigning \<open>unpacked_alternative\<close>, \<open>alternative_path_length\<close>,
  \<open>alt_source_traversed_in_reverse\<close> or \<open>alt_target_traversed_in_reverse\<close> leaves
  \<open>unpacked_path_segments\<close>, \<open>shortest_path_length\<close>, \<open>segment_end_coordinates\<close>,
  \<open>raw_via_node_coordinates\<close>, \<open>source_traversed_in_reverse\<close> and
  \<open>target_traversed_in_reverse\<close> as they were, and the other way round.  When the
  producer populates only the primary members of a fresh instance (no
  alternative found), \<open>alternative_path_length\<close> is the maximum, \<open>unpacked_alternative\<close>
  is empty and the primary members hold what was assigned.
\<close>

theorem primary_alternative_independent:
  fixes raw r :: "('t::len, 'p, 'c) RawRouteData"
  shows "primary_fields (r\<lparr>unpacked_alternative := alt\<rparr>) = primary_fields r
       \<and> primary_fields (r\<lparr>alternative_path_length := alen\<rparr>) = primary_fields r
       \<and> primary_fields (r\<lparr>alt_source_traversed_in_reverse := asr\<rparr>) = primary_fields r
       \<and> primary_fields (r\<lparr>alt_target_traversed_in_reverse := atr\<rparr>) = primary_fields r
       \<and> alternative_fields (r\<lparr>unpacked_path_segments := legs\<rparr>) = alternative_fields r
       \<and> alternative_fields (r\<lparr>shortest_path_length := len\<rparr>) = alternative_fields r
       \<and> alternative_fields (r\<lparr>segment_end_coordinates := ends\<rparr>) = alternative_fields r
       \<and> alternative_fields (r\<lparr>raw_via_node_coordinates := vias\<rparr>) = alternative_fields r
       \<and> alternative_fields (r\<lparr>source_traversed_in_reverse := sr\<rparr>) = alternative_fields r
       \<and> alternative_fields (r\<lparr>target_traversed_in_reverse := tr\<rparr>) = alternative_fields r
       \<and> (let d = (RawRouteData_default raw)
                \<lparr>unpacked_path_segments := legs,
                 shortest_path_length := len,
                 segment_end_coordinates := ends,
                 raw_via_node_coordinates := vias,
                 source_traversed_in_reverse := sr,
                 target_traversed_in_reverse := tr\<rparr>
            in alternative_path_length d = numeric_limits_int_max
             \<and> unpacked_alternative d = []
             \<and> primary_fields d = (legs, len, ends, vias, sr, tr))"
  by (simp add: primary_fields_def alternative_fields_def RawRouteData_default_def Let_def)


section \<open>RawRouteData: the length sentinel and the segments\<close>

text \<open>
  C4.  For every \<open>RawRouteData\<close> reached by construction followed by writes of a
  producer that respects the documented contract, \<open>shortest_path_length\<close> is the
  maximum if and only if \<open>unpacked_path_segments\<close> has no segment in any leg, and
  \<open>alternative_path_length\<close> is the maximum if and only if \<open>unpacked_alternative\<close>
  has no segment.  A consumer that tests the length against the sentinel
  therefore knows whether there is a route without reading another member.
\<close>

theorem producer_keeps_length_sentinel_pairing:
  fixes raw :: "('t::len, 'p, 'c) RawRouteData"
  assumes "list_all respects_contract ws"
  shows "((shortest_path_length (populate (RawRouteData_default raw) ws) = numeric_limits_int_max)
            = (concat (unpacked_path_segments (populate (RawRouteData_default raw) ws)) = []))
       \<and> ((alternative_path_length (populate (RawRouteData_default raw) ws)
              = numeric_limits_int_max)
            = (unpacked_alternative (populate (RawRouteData_default raw) ws) = []))"
  using pairing_populate [OF pairing_default assms, of raw]
  by (simp add: length_sentinel_pairing_def)

text \<open>
  An instance of C4: the producer records the checksum, a primary route of one
  leg with one segment and length 42, the source reversal and the absence of an
  alternative.  The writes respect the contract; the primary length is not the
  sentinel and the primary path has a segment, the alternative length is the
  sentinel and the alternative path is empty.
\<close>

theorem producer_keeps_length_sentinel_pairing_witness:
  "list_all respects_contract
      [Checksum 7,
       Primary_route
         [[PathData_init
             \<lparr>node = 0, name_id = 0, segment_duration = 0, turn_instruction = 0 :: 8 word\<rparr>
             1 2 3 4]] 42,
       Source_reversed True,
       Alternative_route [] numeric_limits_int_max]
   \<and> shortest_path_length
        (populate
          (RawRouteData_default
            \<lparr>unpacked_path_segments = [], unpacked_alternative = [],
             segment_end_coordinates = [] :: unit list,
             raw_via_node_coordinates = [] :: unit list,
             check_sum = 0, shortest_path_length = 0, alternative_path_length = 0,
             source_traversed_in_reverse = True, target_traversed_in_reverse = True,
             alt_source_traversed_in_reverse = True, alt_target_traversed_in_reverse = True\<rparr>)
          [Checksum 7,
           Primary_route
             [[PathData_init
                 \<lparr>node = 0, name_id = 0, segment_duration = 0, turn_instruction = 0 :: 8 word\<rparr>
                 1 2 3 4]] 42,
           Source_reversed True,
           Alternative_route [] numeric_limits_int_max]) \<noteq> numeric_limits_int_max
   \<and> alternative_path_length
        (populate
          (RawRouteData_default
            \<lparr>unpacked_path_segments = [], unpacked_alternative = [],
             segment_end_coordinates = [] :: unit list,
             raw_via_node_coordinates = [] :: unit list,
             check_sum = 0, shortest_path_length = 0, alternative_path_length = 0,
             source_traversed_in_reverse = True, target_traversed_in_reverse = True,
             alt_source_traversed_in_reverse = True, alt_target_traversed_in_reverse = True\<rparr>)
          [Checksum 7,
           Primary_route
             [[PathData_init
                 \<lparr>node = 0, name_id = 0, segment_duration = 0, turn_instruction = 0 :: 8 word\<rparr>
                 1 2 3 4]] 42,
           Source_reversed True,
           Alternative_route [] numeric_limits_int_max]) = numeric_limits_int_max"
  using producer_keeps_length_sentinel_pairing
    [of "[Checksum 7,
          Primary_route
            [[PathData_init
                \<lparr>node = 0, name_id = 0, segment_duration = 0, turn_instruction = 0 :: 8 word\<rparr>
                1 2 3 4]] 42,
          Source_reversed True,
          Alternative_route [] numeric_limits_int_max]"
        "\<lparr>unpacked_path_segments = [], unpacked_alternative = [],
          segment_end_coordinates = [] :: unit list,
          raw_via_node_coordinates = [] :: unit list,
          check_sum = 0, shortest_path_length = 0, alternative_path_length = 0,
          source_traversed_in_reverse = True, target_traversed_in_reverse = True,
          alt_source_traversed_in_reverse = True, alt_target_traversed_in_reverse = True\<rparr>"]
  by (simp add: numeric_limits_int_max_def)


section \<open>Determinism of construction\<close>

text \<open>
  C10.  Construction is deterministic.  Two runs of the four-argument
  \<open>PathData\<close> constructor with equal arguments give the same instance whatever
  the two storages held before; so do two runs of the default \<open>PathData\<close>
  constructor and two runs of the \<open>RawRouteData\<close> constructor.  The result
  depends on the arguments alone.
\<close>

theorem construction_deterministic:
  fixes raw1 raw2 :: "'t::len PathData" and rraw1 rraw2 :: "('t, 'p, 'c) RawRouteData"
  shows "PathData_init raw1 no na tu dur = PathData_init raw2 no na tu dur
       \<and> PathData_default raw1 = PathData_default raw2
       \<and> RawRouteData_default rraw1 = RawRouteData_default rraw2"
  by (simp add: PathData_default_def PathData_init_def RawRouteData_default_def)

end
